theory Spec2Isabelle
  imports Main "HOL-Library.AList"
begin

section \<open>Values and exceptions of the host language\<close>

text \<open>
  The panel is TypeScript; what it handles at run time are JavaScript values. A value
  decoded from JSON is \<open>null\<close>, a boolean, a number, a string, an array or an object;
  \<open>undefined\<close> is the value of a missing property and of a property assigned
  \<open>undefined\<close>. The code never inspects a number, so the type of numbers is a parameter.
  An object is the list of its properties in insertion order. An array is an object too:
  besides its elements it can hold named properties.
\<close>

datatype 'n jsval =
    JUndefined
  | JNull
  | JBool bool
  | JNumber 'n
  | JString string
  | JArray "'n jsval list" "(string \<times> 'n jsval) list"
  | JObject "(string \<times> 'n jsval) list"

text \<open>
  The exceptions that can be thrown: \<open>SyntaxError\<close> by \<open>JSON.parse\<close>, \<open>Error\<close> by
  \<open>throw new Error(...)\<close>, \<open>TypeError\<close> by the assignment to a property of a value that
  cannot hold one. Each carries its message.
\<close>

datatype js_error = SyntaxError string | TypeError string | Error string

fun js_message :: "js_error \<Rightarrow> string" where
  "js_message (SyntaxError m) = m"
| "js_message (TypeError m) = m"
| "js_message (Error m) = m"

fun Array_isArray :: "'n jsval \<Rightarrow> bool" where
  "Array_isArray (JArray xs ps) = True"
| "Array_isArray v = False"

text \<open>
  The values that hold properties: objects and arrays (\<open>typeof v === "object"\<close> and
  \<open>v !== null\<close>).
\<close>

fun is_object :: "'n jsval \<Rightarrow> bool" where
  "is_object (JObject ps) = True"
| "is_object (JArray xs ps) = True"
| "is_object v = False"

text \<open>
  \<open>JSON.parse\<close> is a built-in of the host, not code of the panel. It is a parameter of
  every definition that calls it: \<open>decode text\<close> is \<open>Inr v\<close> when \<open>text\<close> is
  syntactically valid JSON with value \<open>v\<close>, and \<open>Inl m\<close> when it is not, \<open>m\<close> being
  the message of the \<open>SyntaxError\<close> that \<open>JSON.parse\<close> throws.
\<close>

definition JSON_parse :: "(string \<Rightarrow> string + 'n jsval) \<Rightarrow> string \<Rightarrow> js_error + 'n jsval" where
  "JSON_parse decode text =
     (case decode text of Inl m \<Rightarrow> Inl (SyntaxError m) | Inr v \<Rightarrow> Inr v)"

text \<open>
  \<open>x ?? d\<close>: the default \<open>d\<close> when \<open>x\<close> is \<open>undefined\<close> or \<open>null\<close>.
\<close>

definition nullish_coalesce :: "'n jsval \<Rightarrow> 'n jsval \<Rightarrow> 'n jsval" where
  "nullish_coalesce x d = (if x = JUndefined \<or> x = JNull then d else x)"

text \<open>
  Reading the property \<open>k\<close> of a value, as the plotting widget reads \<open>layout.autosize\<close>:
  \<open>undefined\<close> when the value has no such property. (\<open>k\<close> is a plain name here, never
  an array index or a built-in property such as \<open>length\<close>.)
\<close>

fun get_property :: "'n jsval \<Rightarrow> string \<Rightarrow> 'n jsval" where
  "get_property (JObject ps) k = (case map_of ps k of None \<Rightarrow> JUndefined | Some v \<Rightarrow> v)"
| "get_property (JArray xs ps) k = (case map_of ps k of None \<Rightarrow> JUndefined | Some v \<Rightarrow> v)"
| "get_property v k = JUndefined"

text \<open>
  The assignment \<open>target.k = v\<close> in module code, which is strict: an object or an array
  takes the property (an existing one keeps its place, a new one is added last); on
  \<open>undefined\<close>, \<open>null\<close> and the primitive values the assignment throws a
  \<open>TypeError\<close>, whose wording is the engine's. (\<open>k\<close> is a plain name, as above.)
\<close>

fun set_property :: "'n jsval \<Rightarrow> string \<Rightarrow> 'n jsval \<Rightarrow> js_error + 'n jsval" where
  "set_property (JObject ps) k v = Inr (JObject (AList.update k v ps))"
| "set_property (JArray xs ps) k v = Inr (JArray xs (AList.update k v ps))"
| "set_property u k v = Inl (TypeError (''Cannot set property '' @ k))"

text \<open>
  \<open>try { body } catch (err) { handler }\<close>: the handler runs on the exception of the body.
\<close>

definition try_catch :: "(js_error + 'a) \<Rightarrow> (js_error \<Rightarrow> js_error + 'a) \<Rightarrow> js_error + 'a" where
  "try_catch body handler = (case body of Inl err \<Rightarrow> handler err | Inr r \<Rightarrow> Inr r)"

section \<open>messages.ts: the plot message and its translation\<close>

text \<open>
  \<open>PlotlyPlot\<close> is the message as received, both fields serialized JSON;
  \<open>PlotlyPlotParsed\<close> is the message after parsing. The cast \<open>as Layout\<close> checks
  nothing at run time, so the parsed layout is whatever value the text decodes to.
\<close>

record PlotlyPlot =
  data :: string
  layout :: string

record 'n PlotlyPlotParsed =
  data :: "'n jsval"
  layout :: "'n jsval"

definition PlotlyPlotSchemaNames :: "string set" where
  "PlotlyPlotSchemaNames = {''plotly_msgs/Plot'', ''plotly_msgs/msg/Plot'', ''plotly.Plot''}"

text \<open>
  \<open>ParsePlotlyMessage\<close>: both fields are decoded (an empty text stands for the empty
  array, respectively the empty object) before the data is checked to be an array, so
  a \<open>SyntaxError\<close> of either field comes before the \<open>Error\<close> of the check.
\<close>

definition ParsePlotlyMessage ::
  "(string \<Rightarrow> string + 'n jsval) \<Rightarrow> PlotlyPlot \<Rightarrow> js_error + 'n PlotlyPlotParsed" where
  "ParsePlotlyMessage decode msg =
     (case (if length (PlotlyPlot.data msg) > 0 then JSON_parse decode (PlotlyPlot.data msg)
            else Inr (JArray [] [])) of
        Inl err \<Rightarrow> Inl err
      | Inr data_v \<Rightarrow>
          (case (if length (PlotlyPlot.layout msg) > 0
                 then JSON_parse decode (PlotlyPlot.layout msg)
                 else Inr (JObject [])) of
             Inl err \<Rightarrow> Inl err
           | Inr layout_v \<Rightarrow>
               if \<not> Array_isArray data_v then Inl (Error ''Plot data must be an array'')
               else Inr \<lparr>PlotlyPlotParsed.data = data_v, PlotlyPlotParsed.layout = layout_v\<rparr>))"

text \<open>
  A finite fragment of the host's JSON decoder, to run the definitions on concrete
  texts. The listed texts decode as ECMA-404 says; any other text is reported as a syntax
  error, which is right for the one malformed text used below, an opening brace alone.
  The wording of the message is the engine's.
\<close>

definition decode_sample :: "string \<Rightarrow> string + int jsval" where
  "decode_sample text =
     (if text = ''[]'' then Inr (JArray [] [])
      else if text = ''{}'' then Inr (JObject [])
      else if text = ''null'' then Inr JNull
      else if text = ''true'' then Inr (JBool True)
      else if text = ''5'' then Inr (JNumber 5)
      else if text = ''[5]'' then Inr (JArray [JNumber 5] [])
      else Inl ''Unexpected end of JSON input'')"

section \<open>The panel: state that the host delivers\<close>

text \<open>
  A time stamp of the host is a pair of seconds and nanoseconds. \<open>isGreaterThan\<close>
  is imported from the library \<open>@foxglove/rostime\<close>, a dependency whose source is not
  part of the panel; it is written here as the library defines it: \<open>compare\<close> is
  the difference of the seconds, or of the nanoseconds when the seconds are equal, and
  \<open>isGreaterThan\<close> tests it for being positive. Both fields are integers, so the
  subtraction of the host's numbers is exact.
\<close>

record Time =
  sec :: int
  nsec :: int

definition compare :: "Time \<Rightarrow> Time \<Rightarrow> int" where
  "compare left right =
     (let secDiff = sec left - sec right
      in if secDiff \<noteq> 0 then secDiff else nsec left - nsec right)"

definition isGreaterThan :: "Time \<Rightarrow> Time \<Rightarrow> bool" where
  "isGreaterThan left right = (compare left right > 0)"

text \<open>
  Of a message event the panel reads the receive time and the message; of a topic, its
  name and its schema name.
\<close>

record 'm MessageEvent =
  topic :: string
  receiveTime :: Time
  message :: 'm

record Topic =
  name :: string
  schemaName :: string

record StringMessage =
  data :: string

datatype colorScheme = light | dark

definition VALID_DATATYPES :: "string set" where
  "VALID_DATATYPES = {''std_msgs/String'', ''std_msgs.String''}"

text \<open>
  What the memos write besides their result: the error message shown by the settings
  editor (\<open>setErrorMessage\<close>) and the lines logged with \<open>console.error\<close>.
\<close>

record panel_ui =
  errorMessage :: "string option"
  console_error :: "string list"

section \<open>The panel: list of valid topic names\<close>

text \<open>
  The memo \<open>validTopicNames\<close> is the same in both panels but for the set of schema
  names. \<open>topics\<close> is \<open>undefined\<close> until the host has delivered the list; a topic
  name is used when it is a non-empty string (\<open>topicName && ...\<close>).
\<close>

definition validTopicNames_for ::
  "string set \<Rightarrow> Topic list option \<Rightarrow> string option \<Rightarrow> string list" where
  "validTopicNames_for schemas topics topicName =
     (case topics of
        None \<Rightarrow> []
      | Some ts \<Rightarrow>
          (let output = map name (filter (\<lambda>t. schemaName t \<in> schemas) ts)
           in case topicName of
                None \<Rightarrow> output
              | Some tn \<Rightarrow> if tn \<noteq> [] \<and> tn \<notin> set output then tn # output else output))"

definition validTopicNames :: "Topic list option \<Rightarrow> string option \<Rightarrow> string list" where
  "validTopicNames = validTopicNames_for PlotlyPlotSchemaNames"

definition validTopicNames_String :: "Topic list option \<Rightarrow> string option \<Rightarrow> string list" where
  "validTopicNames_String = validTopicNames_for VALID_DATATYPES"

section \<open>The panel: the most recent message\<close>

text \<open>
  One run of the effect that updates \<open>latestMessage\<close>; the result is the state after
  it (\<open>setLatestMessage\<close> is the only write). The panel for \<open>plotly.Plot\<close> messages
  takes the last message of the frame; the panel for \<open>std_msgs/String\<close> messages takes
  it only when there is no latest message or its receive time is greater.
\<close>

definition latestMessage_effect ::
  "string option \<Rightarrow> 'm MessageEvent list option \<Rightarrow> 'm MessageEvent option
     \<Rightarrow> 'm MessageEvent option" where
  "latestMessage_effect topicName messages latestMessage =
     (if topicName = None then None
      else case messages of
             None \<Rightarrow> latestMessage
           | Some ms \<Rightarrow>
               if length ms = 0 then latestMessage
               else Some (ms ! (length ms - 1)))"

definition latestMessage_effect_String ::
  "string option \<Rightarrow> 'm MessageEvent list option \<Rightarrow> 'm MessageEvent option
     \<Rightarrow> 'm MessageEvent option" where
  "latestMessage_effect_String topicName messages latestMessage =
     (if topicName = None then None
      else case messages of
             None \<Rightarrow> latestMessage
           | Some ms \<Rightarrow>
               if length ms = 0 then latestMessage
               else (let curLatest = ms ! (length ms - 1)
                     in case latestMessage of
                          None \<Rightarrow> Some (ms ! (length ms - 1))
                        | Some prev \<Rightarrow>
                            if isGreaterThan (receiveTime curLatest) (receiveTime prev)
                            then Some (ms ! (length ms - 1))
                            else latestMessage))"

section \<open>The panel: from the latest message to the plot\<close>

text \<open>
  The memo \<open>plotMessage\<close> of the \<open>plotly.Plot\<close> panel: the parsed message, or
  \<open>undefined\<close> when there is no message or the translation throws; the handler logs
  and sets the error message.
\<close>

definition plotMessage_memo ::
  "(string \<Rightarrow> string + 'n jsval) \<Rightarrow> PlotlyPlot MessageEvent option \<Rightarrow> panel_ui
     \<Rightarrow> js_error + ('n PlotlyPlotParsed option \<times> panel_ui)" where
  "plotMessage_memo decode latestMessage ui =
     (case latestMessage of
        None \<Rightarrow> Inr (None, ui)
      | Some ev \<Rightarrow>
          try_catch
            (case ParsePlotlyMessage decode (message ev) of
               Inl err \<Rightarrow> Inl err
             | Inr parsed \<Rightarrow> Inr (Some parsed, ui\<lparr>errorMessage := None\<rparr>))
            (\<lambda>err.
               let m = ''Failed to parse: '' @ js_message err
               in Inr (None, ui\<lparr>console_error := console_error ui @ [''[Plotly] '' @ m],
                                 errorMessage := Some m\<rparr>)))"

text \<open>
  \<open>plotMessage?.data ?? []\<close>.
\<close>

definition data_memo :: "'n PlotlyPlotParsed option \<Rightarrow> 'n jsval" where
  "data_memo plotMessage =
     nullish_coalesce
       (case plotMessage of None \<Rightarrow> JUndefined | Some p \<Rightarrow> PlotlyPlotParsed.data p)
       (JArray [] [])"

text \<open>
  The memo \<open>layout\<close> of the \<open>plotly.Plot\<close> panel. \<open>DARK_TEMPLATE\<close> is a constant
  of the module \<open>templates\<close>; it is a parameter here. \<open>layout_or_default\<close> is
  the initial value of \<open>output\<close>, \<open>plotMessage?.layout ?? {}\<close>. The two assignments
  write into the layout object of the parsed message itself, which the memo returns.
\<close>

definition layout_or_default :: "'n PlotlyPlotParsed option \<Rightarrow> 'n jsval" where
  "layout_or_default plotMessage =
     nullish_coalesce
       (case plotMessage of None \<Rightarrow> JUndefined | Some p \<Rightarrow> PlotlyPlotParsed.layout p)
       (JObject [])"

definition layout_memo ::
  "'n jsval \<Rightarrow> colorScheme \<Rightarrow> 'n PlotlyPlotParsed option \<Rightarrow> js_error + 'n jsval" where
  "layout_memo DARK_TEMPLATE scheme plotMessage =
     (let output = layout_or_default plotMessage
      in case set_property output ''autosize'' (JBool True) of
           Inl err \<Rightarrow> Inl err
         | Inr output1 \<Rightarrow>
             set_property output1 ''template''
               (if scheme = dark then DARK_TEMPLATE else JUndefined))"

text \<open>
  The memo \<open>plotData\<close> of the \<open>std_msgs/String\<close> panel: the decoded array, or the
  empty array when there is no message, the text is not JSON or the value is not an
  array.
\<close>

definition plotData_memo ::
  "(string \<Rightarrow> string + 'n jsval) \<Rightarrow> StringMessage MessageEvent option \<Rightarrow> panel_ui
     \<Rightarrow> js_error + ('n jsval \<times> panel_ui)" where
  "plotData_memo decode latestMessage ui =
     (case latestMessage of
        None \<Rightarrow> Inr (JArray [] [], ui)
      | Some ev \<Rightarrow>
          try_catch
            (case JSON_parse decode (StringMessage.data (message ev)) of
               Inl err \<Rightarrow> Inl err
             | Inr json \<Rightarrow>
                 if \<not> Array_isArray json then
                   (let m = ''JSON is not an array''
                    in Inr (JArray [] [],
                            ui\<lparr>console_error := console_error ui @ [''[Plotly] '' @ m],
                               errorMessage := Some m\<rparr>))
                 else Inr (json, ui\<lparr>errorMessage := None\<rparr>))
            (\<lambda>err.
               let m = ''Failed to parse JSON: '' @ js_message err
               in Inr (JArray [] [],
                       ui\<lparr>console_error := console_error ui @ [''[Plotly] '' @ m],
                          errorMessage := Some m\<rparr>)))"

text \<open>
  The memo \<open>plotLayout\<close> of the \<open>std_msgs/String\<close> panel: a fresh object.
\<close>

definition plotLayout_memo :: "'n jsval \<Rightarrow> colorScheme \<Rightarrow> 'n jsval" where
  "plotLayout_memo DARK_TEMPLATE scheme =
     JObject [(''autosize'', JBool True),
              (''template'', if scheme = dark then DARK_TEMPLATE else JUndefined)]"

section \<open>Properties of the translation\<close>

lemma ParsePlotlyMessage_data_error:
  assumes "PlotlyPlot.data msg \<noteq> []" and "decode (PlotlyPlot.data msg) = Inl m"
  shows "ParsePlotlyMessage decode msg = Inl (SyntaxError m)"
  using assms by (simp add: ParsePlotlyMessage_def JSON_parse_def)

lemma ParsePlotlyMessage_layout_error:
  assumes "PlotlyPlot.layout msg \<noteq> []" and "decode (PlotlyPlot.layout msg) = Inl m"
    and "PlotlyPlot.data msg = [] \<or> \<not> isl (decode (PlotlyPlot.data msg))"
  shows "ParsePlotlyMessage decode msg = Inl (SyntaxError m)"
  using assms
  by (cases "decode (PlotlyPlot.data msg)") (auto simp: ParsePlotlyMessage_def JSON_parse_def)

lemma ParsePlotlyMessage_not_array:
  assumes "PlotlyPlot.data msg \<noteq> []" and "decode (PlotlyPlot.data msg) = Inr v"
    and "\<not> Array_isArray v"
    and "PlotlyPlot.layout msg = [] \<or> \<not> isl (decode (PlotlyPlot.layout msg))"
  shows "ParsePlotlyMessage decode msg = Inl (Error ''Plot data must be an array'')"
  using assms
  by (cases "decode (PlotlyPlot.layout msg)") (auto simp: ParsePlotlyMessage_def JSON_parse_def)

lemma plotData_memo_not_array:
  assumes "decode (StringMessage.data (message ev)) = Inr v" and "\<not> Array_isArray v"
  shows "plotData_memo decode (Some ev) ui =
           Inr (JArray [] [],
                ui\<lparr>console_error := console_error ui @ [''[Plotly] JSON is not an array''],
                   errorMessage := Some ''JSON is not an array''\<rparr>)"
  using assms by (simp add: plotData_memo_def try_catch_def JSON_parse_def Let_def)

lemma plotData_memo_malformed:
  assumes "decode (StringMessage.data (message ev)) = Inl m"
  shows "plotData_memo decode (Some ev) ui =
           Inr (JArray [] [],
                ui\<lparr>console_error :=
                     console_error ui @ [''[Plotly] Failed to parse JSON: '' @ m],
                   errorMessage := Some (''Failed to parse JSON: '' @ m)\<rparr>)"
  using assms by (simp add: plotData_memo_def try_catch_def JSON_parse_def Let_def)

lemma plotData_memo_array:
  assumes "decode (StringMessage.data (message ev)) = Inr v" and "Array_isArray v"
  shows "plotData_memo decode (Some ev) ui = Inr (v, ui\<lparr>errorMessage := None\<rparr>)"
  using assms by (simp add: plotData_memo_def try_catch_def JSON_parse_def Let_def)

text \<open>
  C4. The message whose data and layout are both the empty string translates, without
  error, to exactly the empty array of series and the empty layout object, whatever the
  JSON decoder is (it is never called).
\<close>

theorem ParsePlotlyMessage_empty_fields:
  "ParsePlotlyMessage decode \<lparr>PlotlyPlot.data = '''', PlotlyPlot.layout = ''''\<rparr> =
     Inr \<lparr>PlotlyPlotParsed.data = JArray [] [], PlotlyPlotParsed.layout = JObject []\<rparr>"
  by (simp add: ParsePlotlyMessage_def)

text \<open>
  C3. When at least one of the two fields is a non-empty string that is not syntactically
  valid JSON, the translation throws a \<open>SyntaxError\<close> (the ParseError of the
  specification) and returns no parsed message.
\<close>

theorem ParsePlotlyMessage_malformed_throws_SyntaxError:
  assumes "(PlotlyPlot.data msg \<noteq> [] \<and> isl (decode (PlotlyPlot.data msg))) \<or>
           (PlotlyPlot.layout msg \<noteq> [] \<and> isl (decode (PlotlyPlot.layout msg)))"
  shows "\<exists>m. ParsePlotlyMessage decode msg = Inl (SyntaxError m)"
proof (cases "PlotlyPlot.data msg \<noteq> [] \<and> isl (decode (PlotlyPlot.data msg))")
  case True
  then obtain m where "decode (PlotlyPlot.data msg) = Inl m"
    by (auto simp: isl_def)
  with True show ?thesis
    using ParsePlotlyMessage_data_error by blast
next
  case False
  with assms have l: "PlotlyPlot.layout msg \<noteq> []" "isl (decode (PlotlyPlot.layout msg))"
    by auto
  then obtain m where "decode (PlotlyPlot.layout msg) = Inl m"
    by (auto simp: isl_def)
  with False l show ?thesis
    using ParsePlotlyMessage_layout_error [of msg decode m] by blast
qed

text \<open>
  The text of the layout is an opening brace alone; the data is a well-formed array.
\<close>

theorem ParsePlotlyMessage_malformed_witness:
  "isl (decode_sample ''{'') \<and>
   (\<exists>m. ParsePlotlyMessage decode_sample \<lparr>PlotlyPlot.data = ''[]'', PlotlyPlot.layout = ''{''\<rparr>
          = Inl (SyntaxError m))"
  using ParsePlotlyMessage_malformed_throws_SyntaxError
    [of "\<lparr>PlotlyPlot.data = ''[]'', PlotlyPlot.layout = ''{''\<rparr>" decode_sample]
  by (simp add: decode_sample_def)

text \<open>
  C2, as stated, fails: the data \<open>{}\<close> is valid JSON and decodes to an object, yet with
  a malformed layout the translation throws the \<open>SyntaxError\<close> of the layout and not the
  \<open>Error\<close> of the array check (the ValidationError of the specification), because both
  fields are decoded before the check.
\<close>

theorem ParsePlotlyMessage_not_array_counterexample:
  "decode_sample ''{}'' = Inr (JObject []) \<and>
   \<not> Array_isArray (JObject [] :: int jsval) \<and>
   ParsePlotlyMessage decode_sample \<lparr>PlotlyPlot.data = ''{}'', PlotlyPlot.layout = ''{''\<rparr>
     = Inl (SyntaxError ''Unexpected end of JSON input'') \<and>
   ParsePlotlyMessage decode_sample \<lparr>PlotlyPlot.data = ''{}'', PlotlyPlot.layout = ''{''\<rparr>
     \<noteq> Inl (Error ''Plot data must be an array'')"
  by (simp add: ParsePlotlyMessage_def JSON_parse_def decode_sample_def)

text \<open>
  C2, amended. When the data is a non-empty string that decodes to a value that is not an
  array, the translation never returns a parsed message: it throws the \<open>Error\<close>
  ``Plot data must be an array'' when the layout is empty or valid JSON, and the
  \<open>SyntaxError\<close> of the layout when the layout is a non-empty malformed string. In the
  panel for \<open>std_msgs/String\<close> messages, a text that decodes to a value that is not an
  array makes \<open>plotData\<close> the empty array, with ``JSON is not an array'' logged and set
  as the error message.
\<close>

theorem not_array_rejected:
  "(PlotlyPlot.data msg \<noteq> [] \<and> decode (PlotlyPlot.data msg) = Inr v \<and> \<not> Array_isArray v \<longrightarrow>
      (\<exists>err. ParsePlotlyMessage decode msg = Inl err) \<and>
      (PlotlyPlot.layout msg = [] \<or> \<not> isl (decode (PlotlyPlot.layout msg)) \<longrightarrow>
         ParsePlotlyMessage decode msg = Inl (Error ''Plot data must be an array'')) \<and>
      (PlotlyPlot.layout msg \<noteq> [] \<and> decode (PlotlyPlot.layout msg) = Inl m \<longrightarrow>
         ParsePlotlyMessage decode msg = Inl (SyntaxError m))) \<and>
   (decode (StringMessage.data (message sev)) = Inr v \<and> \<not> Array_isArray v \<longrightarrow>
      plotData_memo decode (Some sev) ui =
        Inr (JArray [] [],
             ui\<lparr>console_error := console_error ui @ [''[Plotly] JSON is not an array''],
                errorMessage := Some ''JSON is not an array''\<rparr>))"
proof (intro conjI impI)
  assume a: "PlotlyPlot.data msg \<noteq> [] \<and> decode (PlotlyPlot.data msg) = Inr v \<and>
             \<not> Array_isArray v"
  have syn: "ParsePlotlyMessage decode msg = Inl (SyntaxError m')"
    if "PlotlyPlot.layout msg \<noteq> []" and "decode (PlotlyPlot.layout msg) = Inl m'" for m'
    using a that by (simp add: ParsePlotlyMessage_def JSON_parse_def)
  have val: "ParsePlotlyMessage decode msg = Inl (Error ''Plot data must be an array'')"
    if "PlotlyPlot.layout msg = [] \<or> \<not> isl (decode (PlotlyPlot.layout msg))"
    using a that ParsePlotlyMessage_not_array [of msg decode v] by blast
  show "\<exists>err. ParsePlotlyMessage decode msg = Inl err"
  proof (cases "PlotlyPlot.layout msg = [] \<or> \<not> isl (decode (PlotlyPlot.layout msg))")
    case True
    then show ?thesis using val by blast
  next
    case False
    then obtain m' where "decode (PlotlyPlot.layout msg) = Inl m'"
      by (auto simp: isl_def)
    with False show ?thesis using syn by blast
  qed
  show "ParsePlotlyMessage decode msg = Inl (Error ''Plot data must be an array'')"
    if "PlotlyPlot.layout msg = [] \<or> \<not> isl (decode (PlotlyPlot.layout msg))"
    using that by (rule val)
  show "ParsePlotlyMessage decode msg = Inl (SyntaxError m)"
    if "PlotlyPlot.layout msg \<noteq> [] \<and> decode (PlotlyPlot.layout msg) = Inl m"
    using that syn by blast
next
  assume "decode (StringMessage.data (message sev)) = Inr v \<and> \<not> Array_isArray v"
  then show "plotData_memo decode (Some sev) ui =
        Inr (JArray [] [],
             ui\<lparr>console_error := console_error ui @ [''[Plotly] JSON is not an array''],
                errorMessage := Some ''JSON is not an array''\<rparr>)"
    by (simp add: plotData_memo_not_array)
qed

text \<open>
  The data \<open>{}\<close> with an empty layout, and the same text as a string message.
\<close>

theorem not_array_rejected_witness:
  "decode_sample ''{}'' = Inr (JObject []) \<and>
   ParsePlotlyMessage decode_sample \<lparr>PlotlyPlot.data = ''{}'', PlotlyPlot.layout = ''''\<rparr>
     = Inl (Error ''Plot data must be an array'') \<and>
   plotData_memo decode_sample
     (Some \<lparr>topic = ''/json'', receiveTime = \<lparr>sec = 1, nsec = 0\<rparr>,
            message = \<lparr>StringMessage.data = ''{}''\<rparr>\<rparr>)
     \<lparr>errorMessage = None, console_error = []\<rparr>
     = Inr (JArray [] [],
            \<lparr>errorMessage = Some ''JSON is not an array'',
             console_error = [''[Plotly] JSON is not an array'']\<rparr>)"
  using not_array_rejected
    [of "\<lparr>PlotlyPlot.data = ''{}'', PlotlyPlot.layout = ''''\<rparr>" decode_sample "JObject []"
        "''''"
        "\<lparr>topic = ''/json'', receiveTime = \<lparr>sec = 1, nsec = 0\<rparr>,
          message = \<lparr>StringMessage.data = ''{}''\<rparr>\<rparr>"
        "\<lparr>errorMessage = None, console_error = []\<rparr>"]
  by (simp add: decode_sample_def)

text \<open>
  C9. When the data is a non-empty string that decodes to an array and the layout is a
  non-empty string that decodes to any value at all (an array, a string, a number, a
  boolean or \<open>null\<close> included), the translation succeeds and returns that value,
  unchanged, as the layout: the layout is never checked.
\<close>

theorem ParsePlotlyMessage_layout_unchecked:
  assumes "PlotlyPlot.data msg \<noteq> []" and "decode (PlotlyPlot.data msg) = Inr d"
    and "Array_isArray d"
    and "PlotlyPlot.layout msg \<noteq> []" and "decode (PlotlyPlot.layout msg) = Inr v"
  shows "ParsePlotlyMessage decode msg =
           Inr \<lparr>PlotlyPlotParsed.data = d, PlotlyPlotParsed.layout = v\<rparr>"
  using assms by (simp add: ParsePlotlyMessage_def JSON_parse_def)

text \<open>
  The layout \<open>null\<close>, with the data \<open>[5]\<close>.
\<close>

theorem ParsePlotlyMessage_layout_unchecked_witness:
  "\<not> is_object (JNull :: int jsval) \<and>
   ParsePlotlyMessage decode_sample \<lparr>PlotlyPlot.data = ''[5]'', PlotlyPlot.layout = ''null''\<rparr>
     = Inr \<lparr>PlotlyPlotParsed.data = JArray [JNumber 5] [], PlotlyPlotParsed.layout = JNull\<rparr>"
  using ParsePlotlyMessage_layout_unchecked
    [of "\<lparr>PlotlyPlot.data = ''[5]'', PlotlyPlot.layout = ''null''\<rparr>" decode_sample
        "JArray [JNumber 5] []" JNull]
  by (simp add: decode_sample_def)

section \<open>Properties of the latest-message effect\<close>

lemma isGreaterThan_iff:
  "isGreaterThan a b \<longleftrightarrow> sec b < sec a \<or> (sec b = sec a \<and> nsec b < nsec a)"
  by (auto simp: isGreaterThan_def compare_def Let_def)

lemma last_index: "ms \<noteq> [] \<Longrightarrow> ms ! (length ms - Suc 0) = last ms"
  by (simp add: last_conv_nth)

lemma latestMessage_effect_nonempty:
  "ms \<noteq> [] \<Longrightarrow> latestMessage_effect (Some t) (Some ms) latestMessage = Some (last ms)"
  by (simp add: latestMessage_effect_def last_index)

lemma latestMessage_effect_String_first:
  "ms \<noteq> [] \<Longrightarrow> latestMessage_effect_String (Some t) (Some ms) None = Some (last ms)"
  by (simp add: latestMessage_effect_String_def last_index)

lemma latestMessage_effect_String_next:
  "ms \<noteq> [] \<Longrightarrow>
   latestMessage_effect_String (Some t) (Some ms) (Some prev) =
     (if isGreaterThan (receiveTime (last ms)) (receiveTime prev)
      then Some (last ms) else Some prev)"
  by (simp add: latestMessage_effect_String_def last_index)

text \<open>
  C1, as stated, fails. In the panel for \<open>plotly.Plot\<close> messages the last message of the
  frame replaces the latest message although its receive time is smaller, and replaces it
  on a tie as well; and with no topic selected the effect clears the latest message
  instead of taking the last message of the frame.
\<close>

theorem latestMessage_effect_counterexample:
  "latestMessage_effect (Some ''/plot'')
     (Some [\<lparr>topic = ''/plot'', receiveTime = \<lparr>sec = 1, nsec = 0\<rparr>,
             message = \<lparr>PlotlyPlot.data = ''[]'', PlotlyPlot.layout = ''''\<rparr>\<rparr>])
     (Some \<lparr>topic = ''/plot'', receiveTime = \<lparr>sec = 2, nsec = 0\<rparr>,
            message = \<lparr>PlotlyPlot.data = ''[5]'', PlotlyPlot.layout = ''''\<rparr>\<rparr>)
   = Some \<lparr>topic = ''/plot'', receiveTime = \<lparr>sec = 1, nsec = 0\<rparr>,
           message = \<lparr>PlotlyPlot.data = ''[]'', PlotlyPlot.layout = ''''\<rparr>\<rparr>
   \<and> \<not> isGreaterThan \<lparr>sec = 1, nsec = 0\<rparr> \<lparr>sec = 2, nsec = 0\<rparr>
   \<and> latestMessage_effect (Some ''/plot'')
     (Some [\<lparr>topic = ''/plot'', receiveTime = \<lparr>sec = 2, nsec = 0\<rparr>,
             message = \<lparr>PlotlyPlot.data = ''[]'', PlotlyPlot.layout = ''''\<rparr>\<rparr>])
     (Some \<lparr>topic = ''/plot'', receiveTime = \<lparr>sec = 2, nsec = 0\<rparr>,
            message = \<lparr>PlotlyPlot.data = ''[5]'', PlotlyPlot.layout = ''''\<rparr>\<rparr>)
   \<noteq> Some \<lparr>topic = ''/plot'', receiveTime = \<lparr>sec = 2, nsec = 0\<rparr>,
            message = \<lparr>PlotlyPlot.data = ''[5]'', PlotlyPlot.layout = ''''\<rparr>\<rparr>
   \<and> latestMessage_effect_String None
     (Some [\<lparr>topic = ''/json'', receiveTime = \<lparr>sec = 1, nsec = 0\<rparr>,
             message = \<lparr>StringMessage.data = ''[]''\<rparr>\<rparr>])
     None = None"
  by (simp add: latestMessage_effect_def latestMessage_effect_String_def isGreaterThan_def
      compare_def)

text \<open>
  C1, amended. With a topic selected and a non-empty frame: in the panel for
  \<open>std_msgs/String\<close> messages the latest message is replaced by the last message of the
  frame exactly when there is no latest message or the receive time of that last message
  is strictly greater (seconds first, then nanoseconds), so that on a tie the latest
  message is kept; in the panel for \<open>plotly.Plot\<close> messages the latest message is
  always replaced by the last message of the frame.
\<close>

theorem latestMessage_effect_selection:
  assumes "ms \<noteq> []"
  shows "latestMessage_effect_String (Some t) (Some ms) latestMessage =
           (case latestMessage of
              None \<Rightarrow> Some (last ms)
            | Some prev \<Rightarrow>
                if sec (receiveTime prev) < sec (receiveTime (last ms)) \<or>
                   (sec (receiveTime prev) = sec (receiveTime (last ms)) \<and>
                    nsec (receiveTime prev) < nsec (receiveTime (last ms)))
                then Some (last ms) else Some prev)
         \<and> latestMessage_effect (Some t) (Some ms) latestMessage = Some (last ms)"
proof (cases latestMessage)
  case None
  with assms show ?thesis
    by (simp add: latestMessage_effect_String_first latestMessage_effect_nonempty)
next
  case (Some prev)
  with assms show ?thesis
    by (simp add: latestMessage_effect_String_next latestMessage_effect_nonempty
        isGreaterThan_iff)
qed

text \<open>
  A tie: the one message of the frame has the receive time of the latest message and
  another text. The first panel keeps the latest message, the second takes the new one.
\<close>

theorem latestMessage_effect_selection_witness:
  "latestMessage_effect_String (Some ''/json'')
     (Some [\<lparr>topic = ''/json'', receiveTime = \<lparr>sec = 2, nsec = 7\<rparr>,
             message = \<lparr>StringMessage.data = ''[]''\<rparr>\<rparr>])
     (Some \<lparr>topic = ''/json'', receiveTime = \<lparr>sec = 2, nsec = 7\<rparr>,
            message = \<lparr>StringMessage.data = ''[5]''\<rparr>\<rparr>)
   = Some \<lparr>topic = ''/json'', receiveTime = \<lparr>sec = 2, nsec = 7\<rparr>,
           message = \<lparr>StringMessage.data = ''[5]''\<rparr>\<rparr>
   \<and> latestMessage_effect (Some ''/json'')
     (Some [\<lparr>topic = ''/json'', receiveTime = \<lparr>sec = 2, nsec = 7\<rparr>,
             message = \<lparr>StringMessage.data = ''[]''\<rparr>\<rparr>])
     (Some \<lparr>topic = ''/json'', receiveTime = \<lparr>sec = 2, nsec = 7\<rparr>,
            message = \<lparr>StringMessage.data = ''[5]''\<rparr>\<rparr>)
   = Some \<lparr>topic = ''/json'', receiveTime = \<lparr>sec = 2, nsec = 7\<rparr>,
           message = \<lparr>StringMessage.data = ''[]''\<rparr>\<rparr>"
  using latestMessage_effect_selection
    [of "[\<lparr>topic = ''/json'', receiveTime = \<lparr>sec = 2, nsec = 7\<rparr>,
             message = \<lparr>StringMessage.data = ''[]''\<rparr>\<rparr>]" "''/json''"
        "Some \<lparr>topic = ''/json'', receiveTime = \<lparr>sec = 2, nsec = 7\<rparr>,
            message = \<lparr>StringMessage.data = ''[5]''\<rparr>\<rparr>"]
  by simp

text \<open>
  C7. With no topic selected, the effect of either panel clears the latest message,
  whatever the latest message was and whatever the frame holds.
\<close>

theorem latestMessage_effect_no_topic:
  "latestMessage_effect None messages latestMessage = None \<and>
   latestMessage_effect_String None messages latestMessage = None"
  by (simp add: latestMessage_effect_def latestMessage_effect_String_def)

section \<open>Properties of the translation step of the panel\<close>

lemma plotMessage_memo_failure:
  assumes "ParsePlotlyMessage decode (message ev) = Inl err"
  shows "plotMessage_memo decode (Some ev) ui =
           Inr (None,
                ui\<lparr>console_error :=
                     console_error ui @ [''[Plotly] Failed to parse: '' @ js_message err],
                   errorMessage := Some (''Failed to parse: '' @ js_message err)\<rparr>)"
  using assms by (simp add: plotMessage_memo_def try_catch_def Let_def)

lemma plotMessage_memo_success:
  assumes "ParsePlotlyMessage decode (message ev) = Inr parsed"
  shows "plotMessage_memo decode (Some ev) ui = Inr (Some parsed, ui\<lparr>errorMessage := None\<rparr>)"
  using assms by (simp add: plotMessage_memo_def try_catch_def)

lemma plotMessage_memo_returns:
  "\<exists>r ui'. plotMessage_memo decode latestMessage ui = Inr (r, ui')"
proof (cases latestMessage)
  case None
  then show ?thesis by (simp add: plotMessage_memo_def)
next
  case (Some ev)
  then show ?thesis
    by (cases "ParsePlotlyMessage decode (message ev)")
      (simp_all add: plotMessage_memo_failure plotMessage_memo_success)
qed

lemma plotData_memo_returns:
  "\<exists>d ui'. plotData_memo decode latestMessage ui = Inr (d, ui')"
proof (cases latestMessage)
  case None
  then show ?thesis by (simp add: plotData_memo_def)
next
  case (Some ev)
  show ?thesis
  proof (cases "decode (StringMessage.data (message ev))")
    case (Inl m)
    with Some show ?thesis by (simp add: plotData_memo_malformed)
  next
    case (Inr v)
    with Some show ?thesis
      by (cases "Array_isArray v") (simp_all add: plotData_memo_not_array plotData_memo_array)
  qed
qed

text \<open>
  C8. The translation step of either panel returns for every latest message and throws
  nothing: \<open>plotMessage\<close> and \<open>plotData\<close> always have a value. When the translation of
  the message throws (a \<open>SyntaxError\<close> or the \<open>Error\<close> of the array check), the
  exception is caught, its message is logged and set as the error message of the
  settings editor, and the step yields \<open>undefined\<close>, from which the data of the plot is
  the empty array; in the panel for \<open>std_msgs/String\<close> messages a malformed text and a
  value that is not an array both yield the empty array, logged and reported likewise.
\<close>

theorem translation_step_total:
  "(\<exists>r ui'. plotMessage_memo decode latestMessage ui = Inr (r, ui')) \<and>
   (\<exists>d ui'. plotData_memo decode latestString ui = Inr (d, ui')) \<and>
   (ParsePlotlyMessage decode (message ev) = Inl err \<longrightarrow>
      plotMessage_memo decode (Some ev) ui =
        Inr (None,
             ui\<lparr>console_error :=
                  console_error ui @ [''[Plotly] Failed to parse: '' @ js_message err],
                errorMessage := Some (''Failed to parse: '' @ js_message err)\<rparr>) \<and>
      data_memo (None :: 'n PlotlyPlotParsed option) = JArray [] []) \<and>
   (decode (StringMessage.data (message sev)) = Inl m \<longrightarrow>
      plotData_memo decode (Some sev) ui =
        Inr (JArray [] [],
             ui\<lparr>console_error :=
                  console_error ui @ [''[Plotly] Failed to parse JSON: '' @ m],
                errorMessage := Some (''Failed to parse JSON: '' @ m)\<rparr>)) \<and>
   (decode (StringMessage.data (message sev)) = Inr v \<and> \<not> Array_isArray v \<longrightarrow>
      plotData_memo decode (Some sev) ui =
        Inr (JArray [] [],
             ui\<lparr>console_error := console_error ui @ [''[Plotly] JSON is not an array''],
                errorMessage := Some ''JSON is not an array''\<rparr>))"
  for decode :: "string \<Rightarrow> string + 'n jsval"
proof (intro conjI impI)
  show "\<exists>r ui'. plotMessage_memo decode latestMessage ui = Inr (r, ui')"
    by (rule plotMessage_memo_returns)
  show "\<exists>d ui'. plotData_memo decode latestString ui = Inr (d, ui')"
    by (rule plotData_memo_returns)
  show "data_memo (None :: 'n PlotlyPlotParsed option) = JArray [] []"
    by (simp add: data_memo_def nullish_coalesce_def)
next
  assume "ParsePlotlyMessage decode (message ev) = Inl err"
  then show "plotMessage_memo decode (Some ev) ui =
        Inr (None,
             ui\<lparr>console_error :=
                  console_error ui @ [''[Plotly] Failed to parse: '' @ js_message err],
                errorMessage := Some (''Failed to parse: '' @ js_message err)\<rparr>)"
    by (rule plotMessage_memo_failure)
next
  assume "decode (StringMessage.data (message sev)) = Inl m"
  then show "plotData_memo decode (Some sev) ui =
        Inr (JArray [] [],
             ui\<lparr>console_error :=
                  console_error ui @ [''[Plotly] Failed to parse JSON: '' @ m],
                errorMessage := Some (''Failed to parse JSON: '' @ m)\<rparr>)"
    by (rule plotData_memo_malformed)
next
  assume "decode (StringMessage.data (message sev)) = Inr v \<and> \<not> Array_isArray v"
  then show "plotData_memo decode (Some sev) ui =
        Inr (JArray [] [],
             ui\<lparr>console_error := console_error ui @ [''[Plotly] JSON is not an array''],
                errorMessage := Some ''JSON is not an array''\<rparr>)"
    by (simp add: plotData_memo_not_array)
qed

text \<open>
  A plot message whose data is the object \<open>{}\<close>, and a string message whose text is an
  opening brace alone: the error of each is reported and the step returns.
\<close>

theorem translation_step_total_witness:
  "ParsePlotlyMessage decode_sample \<lparr>PlotlyPlot.data = ''{}'', PlotlyPlot.layout = ''''\<rparr>
     = Inl (Error ''Plot data must be an array'') \<and>
   plotMessage_memo decode_sample
     (Some \<lparr>topic = ''/plot'', receiveTime = \<lparr>sec = 1, nsec = 0\<rparr>,
            message = \<lparr>PlotlyPlot.data = ''{}'', PlotlyPlot.layout = ''''\<rparr>\<rparr>)
     \<lparr>errorMessage = None, console_error = []\<rparr>
     = Inr (None,
            \<lparr>errorMessage = Some ''Failed to parse: Plot data must be an array'',
             console_error = [''[Plotly] Failed to parse: Plot data must be an array'']\<rparr>) \<and>
   plotData_memo decode_sample
     (Some \<lparr>topic = ''/json'', receiveTime = \<lparr>sec = 1, nsec = 0\<rparr>,
            message = \<lparr>StringMessage.data = ''{''\<rparr>\<rparr>)
     \<lparr>errorMessage = None, console_error = []\<rparr>
     = Inr (JArray [] [],
            \<lparr>errorMessage = Some ''Failed to parse JSON: Unexpected end of JSON input'',
             console_error =
               [''[Plotly] Failed to parse JSON: Unexpected end of JSON input'']\<rparr>)"
  using translation_step_total
    [where decode = decode_sample
       and ev = "\<lparr>topic = ''/plot'', receiveTime = \<lparr>sec = 1, nsec = 0\<rparr>,
                  message = \<lparr>PlotlyPlot.data = ''{}'', PlotlyPlot.layout = ''''\<rparr>\<rparr>"
       and err = "Error ''Plot data must be an array''"
       and sev = "\<lparr>topic = ''/json'', receiveTime = \<lparr>sec = 1, nsec = 0\<rparr>,
                   message = \<lparr>StringMessage.data = ''{''\<rparr>\<rparr>"
       and m = "''Unexpected end of JSON input''"
       and ui = "\<lparr>errorMessage = None, console_error = []\<rparr>"]
  by (simp add: ParsePlotlyMessage_def JSON_parse_def decode_sample_def)

section \<open>Properties of the layout\<close>

lemma layout_memo_JObject:
  assumes "layout_or_default plotMessage = JObject ps"
  shows "layout_memo D scheme plotMessage =
           Inr (JObject (AList.update ''template'' (if scheme = dark then D else JUndefined)
                          (AList.update ''autosize'' (JBool True) ps)))"
  using assms by (simp add: layout_memo_def)

lemma layout_memo_JArray:
  assumes "layout_or_default plotMessage = JArray xs ps"
  shows "layout_memo D scheme plotMessage =
           Inr (JArray xs (AList.update ''template'' (if scheme = dark then D else JUndefined)
                            (AList.update ''autosize'' (JBool True) ps)))"
  using assms by (simp add: layout_memo_def)

lemma is_object_cases:
  assumes "is_object u"
  obtains ps where "u = JObject ps" | xs ps where "u = JArray xs ps"
  using assms by (cases u) simp_all

lemma layout_memo_object:
  assumes "is_object (layout_or_default plotMessage)"
  shows "\<exists>out. layout_memo D scheme plotMessage = Inr out \<and>
           get_property out ''autosize'' = JBool True \<and>
           get_property out ''template'' = (if scheme = dark then D else JUndefined) \<and>
           (\<forall>k. k \<noteq> ''autosize'' \<and> k \<noteq> ''template'' \<longrightarrow>
                get_property out k = get_property (layout_or_default plotMessage) k)"
  using assms
proof (cases rule: is_object_cases)
  case (1 ps)
  let ?out = "JObject (AList.update ''template'' (if scheme = dark then D else JUndefined)
                          (AList.update ''autosize'' (JBool True) ps))"
  have "layout_memo D scheme plotMessage = Inr ?out"
    by (rule layout_memo_JObject [OF 1])
  moreover have "get_property ?out ''autosize'' = JBool True"
    by (simp add: update_conv')
  moreover have "get_property ?out ''template'' = (if scheme = dark then D else JUndefined)"
    by (simp add: update_conv')
  moreover have "\<forall>k. k \<noteq> ''autosize'' \<and> k \<noteq> ''template'' \<longrightarrow>
                get_property ?out k = get_property (layout_or_default plotMessage) k"
    unfolding 1 by (simp add: update_conv')
  ultimately show ?thesis by blast
next
  case (2 xs ps)
  let ?out = "JArray xs (AList.update ''template'' (if scheme = dark then D else JUndefined)
                          (AList.update ''autosize'' (JBool True) ps))"
  have "layout_memo D scheme plotMessage = Inr ?out"
    by (rule layout_memo_JArray [OF 2])
  moreover have "get_property ?out ''autosize'' = JBool True"
    by (simp add: update_conv')
  moreover have "get_property ?out ''template'' = (if scheme = dark then D else JUndefined)"
    by (simp add: update_conv')
  moreover have "\<forall>k. k \<noteq> ''autosize'' \<and> k \<noteq> ''template'' \<longrightarrow>
                get_property ?out k = get_property (layout_or_default plotMessage) k"
    unfolding 2 by (simp add: update_conv')
  ultimately show ?thesis by blast
qed

lemma layout_or_default_object:
  "PlotlyPlotParsed.layout p = JObject ps \<Longrightarrow> layout_or_default (Some p) = JObject ps"
  by (simp add: layout_or_default_def nullish_coalesce_def)

text \<open>
  C5, as stated, fails: with the light colour scheme the memo assigns \<open>undefined\<close> to
  \<open>template\<close>, so a template that the author of the layout specified does not survive.
\<close>

theorem layout_memo_light_counterexample:
  "layout_memo (JObject [(''layout'', JObject [])]) light
     (Some \<lparr>PlotlyPlotParsed.data = JArray [] [],
            PlotlyPlotParsed.layout = JObject [(''template'', JObject [(''data'', JObject [])])]\<rparr>)
     = Inr (JObject [(''template'', JUndefined), (''autosize'', JBool True)] :: int jsval)
   \<and> get_property (JObject [(''template'', JObject [(''data'', JObject [])])] :: int jsval)
        ''template'' = JObject [(''data'', JObject [])]
   \<and> get_property (JObject [(''template'', JUndefined), (''autosize'', JBool True)] :: int jsval)
        ''template'' = JUndefined"
  by (simp add: layout_memo_def layout_or_default_def nullish_coalesce_def)

text \<open>
  C5, amended. For every layout object of the author and the light colour scheme, the
  memo leaves every field other than \<open>autosize\<close> and \<open>template\<close> unchanged, sets
  \<open>autosize\<close> to true and sets \<open>template\<close> to \<open>undefined\<close>: the dark template is
  not applied, and a template of the author is discarded.
\<close>

theorem layout_memo_light:
  assumes "PlotlyPlotParsed.layout p = JObject ps"
  shows "\<exists>out. layout_memo D light (Some p) = Inr out \<and>
           (\<forall>k. k \<noteq> ''autosize'' \<and> k \<noteq> ''template'' \<longrightarrow>
                 get_property out k = get_property (PlotlyPlotParsed.layout p) k) \<and>
           get_property out ''autosize'' = JBool True \<and>
           get_property out ''template'' = JUndefined"
proof -
  have o: "layout_or_default (Some p) = PlotlyPlotParsed.layout p"
    using assms by (simp add: layout_or_default_object)
  with assms have "is_object (layout_or_default (Some p))"
    by simp
  from layout_memo_object [OF this, of D light]
  obtain out where "layout_memo D light (Some p) = Inr out"
    and "get_property out ''autosize'' = JBool True"
    and "get_property out ''template'' = JUndefined"
    and "\<forall>k. k \<noteq> ''autosize'' \<and> k \<noteq> ''template'' \<longrightarrow>
                get_property out k = get_property (layout_or_default (Some p)) k"
    by auto
  then show ?thesis
    unfolding o by blast
qed

text \<open>
  A layout with a title and with \<open>autosize\<close> false: the title is kept, \<open>autosize\<close> is
  true in the result.
\<close>

theorem layout_memo_light_witness:
  "\<exists>out. layout_memo (JObject []) light
       (Some \<lparr>PlotlyPlotParsed.data = JArray [] [],
              PlotlyPlotParsed.layout =
                JObject [(''title'', JString ''T''), (''autosize'', JBool False)]\<rparr>) = Inr out \<and>
     get_property out ''title'' = (JString ''T'' :: int jsval) \<and>
     get_property out ''autosize'' = JBool True \<and>
     get_property out ''template'' = JUndefined"
proof -
  let ?p = "\<lparr>PlotlyPlotParsed.data = JArray [] [],
          PlotlyPlotParsed.layout =
            JObject [(''title'', JString ''T''), (''autosize'', JBool False)]\<rparr>
          :: int PlotlyPlotParsed"
  have "PlotlyPlotParsed.layout ?p =
          JObject [(''title'', JString ''T''), (''autosize'', JBool False)]"
    by simp
  from layout_memo_light [OF this, of "JObject []"]
  obtain out where out: "layout_memo (JObject []) light (Some ?p) = Inr out"
    "\<forall>k. k \<noteq> ''autosize'' \<and> k \<noteq> ''template'' \<longrightarrow>
                 get_property out k = get_property (PlotlyPlotParsed.layout ?p) k"
    "get_property out ''autosize'' = JBool True"
    "get_property out ''template'' = JUndefined"
    by blast
  from out(2) have "get_property out ''title'' = JString ''T''"
    by simp
  with out show ?thesis by blast
qed

text \<open>
  On a layout that holds properties (an object or an array), and on a missing message or
  a layout that is \<open>undefined\<close> or \<open>null\<close>, for which \<open>?? {}\<close> supplies a fresh
  object, the memo returns a layout with \<open>autosize\<close> true whose \<open>template\<close> is the
  dark template in the dark scheme and \<open>undefined\<close> in the light one. The layout of the
  panel for \<open>std_msgs/String\<close> messages, which has no input layout, has the same two
  fields in every scheme.
\<close>

lemma layout_or_default_holds_properties:
  assumes "plotMessage = None \<or>
           (\<exists>p. plotMessage = Some p \<and>
                (PlotlyPlotParsed.layout p = JUndefined \<or> PlotlyPlotParsed.layout p = JNull \<or>
                 is_object (PlotlyPlotParsed.layout p)))"
  shows "is_object (layout_or_default plotMessage)"
proof (cases plotMessage)
  case None
  then show ?thesis
    by (simp add: layout_or_default_def nullish_coalesce_def)
next
  case (Some p)
  with assms have "PlotlyPlotParsed.layout p = JUndefined \<or> PlotlyPlotParsed.layout p = JNull \<or>
                   is_object (PlotlyPlotParsed.layout p)"
    by simp
  with Some show ?thesis
    by (auto simp: layout_or_default_def nullish_coalesce_def)
qed

lemma layout_memo_autosize_template:
  assumes "plotMessage = None \<or>
           (\<exists>p. plotMessage = Some p \<and>
                (PlotlyPlotParsed.layout p = JUndefined \<or> PlotlyPlotParsed.layout p = JNull \<or>
                 is_object (PlotlyPlotParsed.layout p)))"
  shows "\<exists>out. layout_memo D scheme plotMessage = Inr out \<and>
            get_property out ''autosize'' = JBool True \<and>
            get_property out ''template'' = (if scheme = dark then D else JUndefined) \<and>
            (D \<noteq> JUndefined \<longrightarrow>
               (get_property out ''template'' \<noteq> JUndefined) = (scheme = dark))"
proof -
  from layout_memo_object [OF layout_or_default_holds_properties [OF assms], of D scheme]
  obtain out where out: "layout_memo D scheme plotMessage = Inr out"
    "get_property out ''autosize'' = JBool True"
    "get_property out ''template'' = (if scheme = dark then D else JUndefined)"
    by blast
  from out(3) have "D \<noteq> JUndefined \<longrightarrow>
      (get_property out ''template'' \<noteq> JUndefined) = (scheme = dark)"
    by simp
  with out show ?thesis by blast
qed

lemma layout_memo_missing_or_null:
  "layout_memo D scheme None =
     Inr (JObject [(''autosize'', JBool True),
                   (''template'', if scheme = dark then D else JUndefined)])"
  "layout_memo D scheme
     (Some \<lparr>PlotlyPlotParsed.data = d, PlotlyPlotParsed.layout = JNull\<rparr>) =
     Inr (JObject [(''autosize'', JBool True),
                   (''template'', if scheme = dark then D else JUndefined)])"
  by (simp_all add: layout_memo_def layout_or_default_def nullish_coalesce_def)

lemma plotLayout_memo_autosize_template:
  "get_property (plotLayout_memo D scheme) ''autosize'' = JBool True \<and>
   get_property (plotLayout_memo D scheme) ''template'' =
     (if scheme = dark then D else JUndefined)"
  by (simp add: plotLayout_memo_def)

text \<open>
  A layout that is a number, a string or a boolean cannot take a property: the first
  assignment throws, in either scheme, and the memo has no result.
\<close>

lemma layout_memo_primitive_throws:
  assumes "PlotlyPlotParsed.layout p = JNumber n \<or> PlotlyPlotParsed.layout p = JString s \<or>
           PlotlyPlotParsed.layout p = JBool b"
  shows "layout_memo D scheme (Some p) = Inl (TypeError ''Cannot set property autosize'')"
  using assms
  by (auto simp: layout_memo_def layout_or_default_def nullish_coalesce_def)

text \<open>
  C6. The claim that for every input layout and every colour scheme the layout handed to
  the plot has \<open>autosize\<close> true, and the dark template exactly in the dark scheme, is
  not met by the panel for \<open>plotly.Plot\<close> messages on the message with data \<open>[]\<close> and
  layout \<open>5\<close>. The translation accepts the message, the translation step returns the
  parsed message and clears the error message, and then the assignment to \<open>autosize\<close>
  throws a \<open>TypeError\<close> out of the layout memo, which no handler catches: in neither
  scheme is there a layout with \<open>autosize\<close> true.
\<close>

theorem layout_memo_throws_on_number_layout:
  "ParsePlotlyMessage decode_sample \<lparr>PlotlyPlot.data = ''[]'', PlotlyPlot.layout = ''5''\<rparr>
     = Inr \<lparr>PlotlyPlotParsed.data = JArray [] [], PlotlyPlotParsed.layout = JNumber 5\<rparr>
   \<and> plotMessage_memo decode_sample
        (Some \<lparr>topic = ''/plot'', receiveTime = \<lparr>sec = 1, nsec = 0\<rparr>,
               message = \<lparr>PlotlyPlot.data = ''[]'', PlotlyPlot.layout = ''5''\<rparr>\<rparr>)
        \<lparr>errorMessage = None, console_error = []\<rparr>
     = Inr (Some \<lparr>PlotlyPlotParsed.data = JArray [] [], PlotlyPlotParsed.layout = JNumber 5\<rparr>,
            \<lparr>errorMessage = None, console_error = []\<rparr>)
   \<and> layout_memo (JObject [(''layout'', JObject [])]) dark
        (Some \<lparr>PlotlyPlotParsed.data = JArray [] [], PlotlyPlotParsed.layout = JNumber 5\<rparr>)
     = Inl (TypeError ''Cannot set property autosize'')
   \<and> layout_memo (JObject [(''layout'', JObject [])]) light
        (Some \<lparr>PlotlyPlotParsed.data = JArray [] [], PlotlyPlotParsed.layout = JNumber 5\<rparr>)
     = Inl (TypeError ''Cannot set property autosize'')"
  by (simp add: ParsePlotlyMessage_def JSON_parse_def decode_sample_def plotMessage_memo_def
      try_catch_def layout_memo_def layout_or_default_def nullish_coalesce_def)

section \<open>Properties of the list of valid topic names\<close>

text \<open>
  C10. For every list of topics and every non-empty selected topic name, the list of
  valid topic names of either panel contains the selected name: the list is the names of
  the topics with a recognised schema, with the selected name put in front when it is not
  among them.
\<close>

theorem validTopicNames_contains_topic:
  assumes "topicName \<noteq> []"
  shows "topicName \<in> set (validTopicNames (Some topics) (Some topicName)) \<and>
         topicName \<in> set (validTopicNames_String (Some topics) (Some topicName)) \<and>
         validTopicNames (Some topics) (Some topicName) =
           (let output = map name (filter (\<lambda>t. schemaName t \<in> PlotlyPlotSchemaNames) topics)
            in if topicName \<in> set output then output else topicName # output) \<and>
         validTopicNames_String (Some topics) (Some topicName) =
           (let output = map name (filter (\<lambda>t. schemaName t \<in> VALID_DATATYPES) topics)
            in if topicName \<in> set output then output else topicName # output)"
  using assms
  by (simp add: validTopicNames_def validTopicNames_String_def validTopicNames_for_def Let_def)

text \<open>
  Two topics, one of them with a plot schema, and a selected name that is not a topic.
\<close>

theorem validTopicNames_contains_topic_witness:
  "validTopicNames
     (Some [\<lparr>name = ''/plot'', schemaName = ''plotly.Plot''\<rparr>,
            \<lparr>name = ''/tf'', schemaName = ''tf2_msgs/TFMessage''\<rparr>]) (Some ''/gone'')
     = [''/gone'', ''/plot''] \<and>
   validTopicNames_String
     (Some [\<lparr>name = ''/plot'', schemaName = ''plotly.Plot''\<rparr>,
            \<lparr>name = ''/tf'', schemaName = ''tf2_msgs/TFMessage''\<rparr>]) (Some ''/gone'')
     = [''/gone'']"
  using validTopicNames_contains_topic
    [of "''/gone''" "[\<lparr>name = ''/plot'', schemaName = ''plotly.Plot''\<rparr>,
            \<lparr>name = ''/tf'', schemaName = ''tf2_msgs/TFMessage''\<rparr>]"]
  by (simp add: PlotlyPlotSchemaNames_def VALID_DATATYPES_def)

end
